theory Spec2Isabelle
  imports Complex_Main "HOL-Library.Char_ord" "HOL-Library.List_Lexorder"
begin

section \<open>points_to_h3.py: aggregating scored points to H3 cells\<close>

text \<open>
  The repository is one script, \<^verbatim>\<open>src/points_to_h3.py\<close>, whose function \<^verbatim>\<open>main\<close> checks an
  input file, drops the points without a score, converts the score column, assigns every
  point to an H3 cell, averages the score per cell, turns the cells into polygons and writes
  them. The script's own logic is the order of these steps and what is raised where; the
  work is done by calls into geopandas, pandas, h3pandas and GDAL.

  The embedding follows this split. What the script itself decides is written out. What a
  library decides is a field of the record \<open>env\<close>, a function with the library call's
  arguments and an error-or-value result, so every library call of the script is a place where
  the model can fail. The script does no arithmetic of its own: the mean of a group is
  computed by pandas, in 64-bit floats, and is one of the library calls. A finite float is
  the real number it stands for.
\<close>

subsection \<open>Data\<close>

type_synonym path = string

text \<open>An exception raised inside a library call, by its message.\<close>
type_synonym lib_exn = string

text \<open>An H3 cell index, as h3pandas stores it: a string of hexadecimal digits.\<close>
type_synonym cell = string

type_synonym ring = "(real \<times> real) list"

datatype geometry =
    Point real real
  | LineString
  | Polygon
  | MultiPoint
  | MultiLineString
  | MultiPolygon
  | GeometryCollection

text \<open>\<^verbatim>\<open>GeoSeries.type\<close>: the name of a geometry's type.\<close>
fun geom_type :: "geometry \<Rightarrow> string" where
  "geom_type (Point x y) = ''Point''"
| "geom_type LineString = ''LineString''"
| "geom_type Polygon = ''Polygon''"
| "geom_type MultiPoint = ''MultiPoint''"
| "geom_type MultiLineString = ''MultiLineString''"
| "geom_type MultiPolygon = ''MultiPolygon''"
| "geom_type GeometryCollection = ''GeometryCollection''"

text \<open>
  A value in a column: missing (\<^verbatim>\<open>None\<close> or \<^verbatim>\<open>NaN\<close>), a finite number, one of the two
  infinite floats, or text. The declared
  type of a column is a pandas/numpy dtype object; \<open>StringDtype\<close> stands for an instance of
  \<^verbatim>\<open>pd.StringDtype\<close>, the pandas extension type for text, \<open>Object\<close> for numpy's
  \<^verbatim>\<open>dtype('O')\<close>.
\<close>
datatype val = NA | Num real | PosInf | NegInf | Str string

datatype dtype = Int64 | Float64 | Object | StringDtype | Datetime64

record feature =
  geom :: geometry
  attrs :: "string \<Rightarrow> val"

text \<open>A \<^verbatim>\<open>GeoDataFrame\<close>: the column names, each column's dtype, and the rows in order.\<close>
record frame =
  columns :: "string list"
  dtypes :: "string \<Rightarrow> dtype"
  rows :: "feature list"

text \<open>A \<^verbatim>\<open>Series\<close>: one column taken out of a frame.\<close>
record series =
  dtype :: dtype
  vals :: "val list"

text \<open>A row of the output layer: the cell, the mean score, the cell's boundary.\<close>
record hex_feature =
  h3 :: cell
  score :: val
  boundary :: ring

text \<open>
  Every place where \<^verbatim>\<open>main\<close> can raise is one constructor, named as the specification names
  the failure. Lines 62, 74, 80 and 93 raise the script's own exceptions; everywhere else an
  exception of a library call leaves \<^verbatim>\<open>main\<close> as it is and is carried as the argument. Line 93
  raises inside an \<^verbatim>\<open>except\<close> block, so Python attaches the exception being handled as the new
  exception's context: it is the argument of \<open>ScoreCoercionError\<close>.
\<close>
datatype error =
    InputNotFound
  | UnreadableGeometry lib_exn
  | NoPointGeometry
  | MissingScoreField
  | ScoreCoercionError lib_exn
  | CellAssignError lib_exn
  | AggregationError lib_exn
  | BoundaryError lib_exn
  | WriteError lib_exn

text \<open>The file system: what is stored under each path, if anything.\<close>
type_synonym 'f fs = "path \<Rightarrow> 'f option"

text \<open>
  The library calls of the script.
  \<^item> \<open>parse_file\<close>: \<^verbatim>\<open>gpd.read_file\<close> on the content of an existing file.
  \<^item> \<open>eq_StringDtype\<close>: the value of \<^verbatim>\<open>d == pd.StringDtype\<close> for a column's dtype \<open>d\<close>; the
    right-hand side is the class, and the result is whatever the \<^verbatim>\<open>__eq__\<close> of the dtype object
    answers.
  \<^item> \<open>to_numeric\<close>: \<^verbatim>\<open>pd.to_numeric\<close>; the result has one value per value of the argument.
  \<^item> \<open>geo_to_h3\<close>: the cell of one geometry at a resolution, as \<^verbatim>\<open>h3pandas\<close> computes it for
    each row.
  \<^item> \<open>mean\<close>: the aggregation \<^verbatim>\<open>"mean"\<close> of pandas on the values of one group: the mean as
    pandas computes it in 64-bit floats, or the exception pandas raises on values it does not
    average.
  \<^item> \<open>h3_to_geo_boundary\<close>: the boundary of one cell.
  \<^item> \<open>to_file\<close>: \<^verbatim>\<open>GeoDataFrame.to_file\<close>. When it returns, the layer is stored under the
    path, and the result is the content of that file. When it raises, the result is the
    exception and the file system it left behind.
\<close>
record 'f env =
  parse_file :: "'f \<Rightarrow> lib_exn + frame"
  eq_StringDtype :: "dtype \<Rightarrow> bool"
  to_numeric :: "series \<Rightarrow> lib_exn + series"
  geo_to_h3 :: "int \<Rightarrow> geometry \<Rightarrow> lib_exn + cell"
  mean :: "val list \<Rightarrow> lib_exn + val"
  h3_to_geo_boundary :: "cell \<Rightarrow> lib_exn + ring"
  to_file :: "hex_feature list \<Rightarrow> path \<Rightarrow> 'f fs \<Rightarrow> lib_exn \<times> 'f fs + 'f"

subsection \<open>Reading (lines 58--83)\<close>

text \<open>\<^verbatim>\<open>os.path.exists\<close>.\<close>
definition path_exists :: "'f fs \<Rightarrow> path \<Rightarrow> bool" where
  "path_exists fs p = (fs p \<noteq> None)"

text \<open>\<^verbatim>\<open>gpd.read_file(input_file)\<close>: the file is looked up and parsed at every call.\<close>
definition read_file :: "'f env \<Rightarrow> 'f fs \<Rightarrow> path \<Rightarrow> lib_exn + frame" where
  "read_file env fs p =
     (case fs p of
        None \<Rightarrow> Inl ''No such file or directory''
      | Some content \<Rightarrow> parse_file env content)"

text \<open>\<^verbatim>\<open>gdf.geometry.type.unique()\<close>.\<close>
definition geometry_types :: "frame \<Rightarrow> string list" where
  "geometry_types gdf = remdups (map (\<lambda>r. geom_type (geom r)) (rows gdf))"

text \<open>
  Lines 58--80, the four checks. Each of the last three reads the file again, as the script
  does.
\<close>
definition validate_input :: "'f env \<Rightarrow> 'f fs \<Rightarrow> path \<Rightarrow> string \<Rightarrow> error + unit" where
  "validate_input env fs input_file score_field =
     (if \<not> path_exists fs input_file then Inl InputNotFound
      else
        (case read_file env fs input_file of
           Inl e \<Rightarrow> Inl (UnreadableGeometry e)
         | Inr _ \<Rightarrow>
             (case read_file env fs input_file of
                Inl e \<Rightarrow> Inl (UnreadableGeometry e)
              | Inr gdf1 \<Rightarrow>
                  (if ''Point'' \<notin> set (geometry_types gdf1) then Inl NoPointGeometry
                   else
                     (case read_file env fs input_file of
                        Inl e \<Rightarrow> Inl (UnreadableGeometry e)
                      | Inr gdf2 \<Rightarrow>
                          (if score_field \<notin> set (columns gdf2) then Inl MissingScoreField
                           else Inr ()))))))"

text \<open>Line 83.\<close>
definition load_input :: "'f env \<Rightarrow> 'f fs \<Rightarrow> path \<Rightarrow> error + frame" where
  "load_input env fs input_file =
     (case read_file env fs input_file of
        Inl e \<Rightarrow> Inl (UnreadableGeometry e)
      | Inr gdf \<Rightarrow> Inr gdf)"

subsection \<open>Dropping and converting scores (lines 85--93)\<close>

text \<open>\<^verbatim>\<open>gdf[c]\<close>, \<^verbatim>\<open>Series.isna\<close>, and selecting the rows of a frame by a boolean mask.\<close>
definition get_series :: "frame \<Rightarrow> string \<Rightarrow> series" where
  "get_series gdf c = \<lparr>dtype = dtypes gdf c, vals = map (\<lambda>r. attrs r c) (rows gdf)\<rparr>"

fun isna :: "val \<Rightarrow> bool" where
  "isna NA = True"
| "isna (Num x) = False"
| "isna PosInf = False"
| "isna NegInf = False"
| "isna (Str s) = False"

definition select_rows :: "frame \<Rightarrow> bool list \<Rightarrow> frame" where
  "select_rows gdf keep = gdf\<lparr>rows := map fst (filter snd (zip (rows gdf) keep))\<rparr>"

text \<open>Line 86: \<^verbatim>\<open>gdf[~gdf[score_field].isna()]\<close>.\<close>
definition exclude_no_score :: "string \<Rightarrow> frame \<Rightarrow> frame" where
  "exclude_no_score score_field gdf =
     select_rows gdf (map (\<lambda>v. \<not> isna v) (vals (get_series gdf score_field)))"

text \<open>
  \<^verbatim>\<open>gdf[c] = s\<close>: the values of \<open>s\<close> replace column \<open>c\<close> row by row, the number of rows of the
  frame stays (pandas aligns on the index and fills a row that has no value with \<^verbatim>\<open>NaN\<close>).
\<close>
fun set_vals :: "string \<Rightarrow> feature list \<Rightarrow> val list \<Rightarrow> feature list" where
  "set_vals c [] vs = []"
| "set_vals c (r # rs) [] = r\<lparr>attrs := (attrs r)(c := NA)\<rparr> # set_vals c rs []"
| "set_vals c (r # rs) (v # vs) = r\<lparr>attrs := (attrs r)(c := v)\<rparr> # set_vals c rs vs"

definition set_series :: "frame \<Rightarrow> string \<Rightarrow> series \<Rightarrow> frame" where
  "set_series gdf c s =
     gdf\<lparr>dtypes := (dtypes gdf)(c := dtype s), rows := set_vals c (rows gdf) (vals s)\<rparr>"

text \<open>Lines 89--93: the guard, the conversion, and the exception raised when it fails.\<close>
definition convert_score :: "'f env \<Rightarrow> string \<Rightarrow> frame \<Rightarrow> error + frame" where
  "convert_score env score_field gdf =
     (if eq_StringDtype env (dtype (get_series gdf score_field)) then
        (case to_numeric env (get_series gdf score_field) of
           Inl e \<Rightarrow> Inl (ScoreCoercionError e)
         | Inr s \<Rightarrow> Inr (set_series gdf score_field s))
      else Inr gdf)"

text \<open>Lines 85--93 together: what the specification calls the Score Normalizer.\<close>
definition score_normalizer :: "'f env \<Rightarrow> string \<Rightarrow> frame \<Rightarrow> error + frame" where
  "score_normalizer env score_field gdf =
     convert_score env score_field (exclude_no_score score_field gdf)"

subsection \<open>Assigning cells (line 96)\<close>

text \<open>
  The decimal digits of a natural number, and \<^verbatim>\<open>f"{n:02}"\<close>: the number padded with zeros to
  two characters, the sign counted.
\<close>
fun digits :: "nat \<Rightarrow> string" where
  "digits n = (if n < 10 then [''0123456789'' ! n] else digits (n div 10) @ [''0123456789'' ! (n mod 10)])"

definition format_02 :: "int \<Rightarrow> string" where
  "format_02 n =
     (if n < 0 then ''-'' @ digits (nat (- n))
      else if n < 10 then ''0'' @ digits (nat n)
      else digits (nat n))"

text \<open>
  The name of the cell column, \<^verbatim>\<open>"h3_" + f"{cell_resolution:02}"\<close> on line 99; h3pandas builds
  the same name for the column it adds.
\<close>
definition h3_column :: "int \<Rightarrow> string" where
  "h3_column cell_resolution = ''h3_'' @ format_02 cell_resolution"

text \<open>
  \<^verbatim>\<open>gdf.h3.geo_to_h3(cell_resolution).reset_index()\<close>: the cell of every row is computed, the
  first failure ends the call; the cells become the column \<open>h3_column\<close> of the frame, which
  replaces a column of that name. A row of the result is the pair of the cell and the row.
\<close>
fun assign_cells :: "'f env \<Rightarrow> int \<Rightarrow> feature list \<Rightarrow> lib_exn + (cell \<times> feature) list" where
  "assign_cells env cell_resolution [] = Inr []"
| "assign_cells env cell_resolution (r # rs) =
     (case geo_to_h3 env cell_resolution (geom r) of
        Inl e \<Rightarrow> Inl e
      | Inr c \<Rightarrow>
          (case assign_cells env cell_resolution rs of
             Inl e \<Rightarrow> Inl e
           | Inr ps \<Rightarrow>
               Inr ((c, r\<lparr>attrs := (attrs r)(h3_column cell_resolution := Str c)\<rparr>) # ps)))"

definition gdf_h3 :: "'f env \<Rightarrow> int \<Rightarrow> frame \<Rightarrow> error + (cell \<times> feature) list" where
  "gdf_h3 env cell_resolution gdf =
     (case assign_cells env cell_resolution (rows gdf) of
        Inl e \<Rightarrow> Inl (CellAssignError e)
      | Inr ps \<Rightarrow> Inr ps)"

subsection \<open>Aggregating (lines 98--101)\<close>

text \<open>
  \<^verbatim>\<open>groupby\<close>: the keys are the distinct cells, sorted; a group is the rows of one cell, in
  their order.
\<close>
definition group_keys :: "(cell \<times> feature) list \<Rightarrow> cell list" where
  "group_keys ps = sort (remdups (map fst ps))"

definition group_members :: "cell \<Rightarrow> (cell \<times> feature) list \<Rightarrow> feature list" where
  "group_members k ps = map snd (filter (\<lambda>p. fst p = k) ps)"

text \<open>
  \<^verbatim>\<open>.agg({score_field: "mean"})\<close>: pandas takes the mean of the score column in every group;
  an exception in one group ends the call.
\<close>
fun agg :: "'f env \<Rightarrow> string \<Rightarrow> (cell \<times> feature) list \<Rightarrow> cell list \<Rightarrow> lib_exn + (cell \<times> val) list" where
  "agg env score_field ps [] = Inr []"
| "agg env score_field ps (k # ks) =
     (case mean env (map (\<lambda>r. attrs r score_field) (group_members k ps)) of
        Inl e \<Rightarrow> Inl e
      | Inr m \<Rightarrow>
          (case agg env score_field ps ks of
             Inl e \<Rightarrow> Inl e
           | Inr t \<Rightarrow> Inr ((k, m) # t)))"

definition gvi_mean :: "'f env \<Rightarrow> string \<Rightarrow> (cell \<times> feature) list \<Rightarrow> error + (cell \<times> val) list" where
  "gvi_mean env score_field ps =
     (case agg env score_field ps (group_keys ps) of
        Inl e \<Rightarrow> Inl (AggregationError e)
      | Inr t \<Rightarrow> Inr t)"

subsection \<open>Polygons and the output file (lines 103--107)\<close>

fun to_polygons :: "'f env \<Rightarrow> (cell \<times> val) list \<Rightarrow> lib_exn + hex_feature list" where
  "to_polygons env [] = Inr []"
| "to_polygons env ((c, m) # t) =
     (case h3_to_geo_boundary env c of
        Inl e \<Rightarrow> Inl e
      | Inr b \<Rightarrow>
          (case to_polygons env t of
             Inl e \<Rightarrow> Inl e
           | Inr hs \<Rightarrow> Inr (\<lparr>h3 = c, score = m, boundary = b\<rparr> # hs)))"

definition gvi_hex :: "'f env \<Rightarrow> (cell \<times> val) list \<Rightarrow> error + hex_feature list" where
  "gvi_hex env t =
     (case to_polygons env t of
        Inl e \<Rightarrow> Inl (BoundaryError e)
      | Inr hs \<Rightarrow> Inr hs)"

subsection \<open>The command\<close>

text \<open>
  \<^verbatim>\<open>main\<close>, lines 58--107. The result is what the call raised, or nothing, and the file system
  after the call.
\<close>
definition main :: "'f env \<Rightarrow> path \<Rightarrow> string \<Rightarrow> path \<Rightarrow> int \<Rightarrow> 'f fs \<Rightarrow> (error + unit) \<times> 'f fs" where
  "main env input_file score_field output_file cell_resolution fs =
     (case validate_input env fs input_file score_field of
        Inl e \<Rightarrow> (Inl e, fs)
      | Inr _ \<Rightarrow>
     (case load_input env fs input_file of
        Inl e \<Rightarrow> (Inl e, fs)
      | Inr gdf \<Rightarrow>
     (case convert_score env score_field (exclude_no_score score_field gdf) of
        Inl e \<Rightarrow> (Inl e, fs)
      | Inr gdf' \<Rightarrow>
     (case gdf_h3 env cell_resolution gdf' of
        Inl e \<Rightarrow> (Inl e, fs)
      | Inr ps \<Rightarrow>
     (case gvi_mean env score_field ps of
        Inl e \<Rightarrow> (Inl e, fs)
      | Inr t \<Rightarrow>
     (case gvi_hex env t of
        Inl e \<Rightarrow> (Inl e, fs)
      | Inr hs \<Rightarrow>
     (case to_file env hs output_file fs of
        Inl (e, fs') \<Rightarrow> (Inl (WriteError e), fs')
      | Inr content \<Rightarrow> (Inr (), fs(output_file \<mapsto> content)))))))))"

text \<open>
  The command line: \<^verbatim>\<open>cell_resolution\<close> is the one argument with a default (line 40).
\<close>
definition app :: "'f env \<Rightarrow> path \<Rightarrow> string \<Rightarrow> path \<Rightarrow> int option \<Rightarrow> 'f fs \<Rightarrow> (error + unit) \<times> 'f fs" where
  "app env input_file score_field output_file cell_resolution fs =
     main env input_file score_field output_file
       (case cell_resolution of None \<Rightarrow> 10 | Some n \<Rightarrow> n) fs"

text \<open>
  Lines 58--104 alone: the layer that line 107 hands to the writer, or what was raised before.
\<close>
definition hex_layer :: "'f env \<Rightarrow> 'f fs \<Rightarrow> path \<Rightarrow> string \<Rightarrow> int \<Rightarrow> error + hex_feature list" where
  "hex_layer env fs input_file score_field cell_resolution =
     (case validate_input env fs input_file score_field of
        Inl e \<Rightarrow> Inl e
      | Inr _ \<Rightarrow>
     (case load_input env fs input_file of
        Inl e \<Rightarrow> Inl e
      | Inr gdf \<Rightarrow>
     (case score_normalizer env score_field gdf of
        Inl e \<Rightarrow> Inl e
      | Inr gdf' \<Rightarrow>
     (case gdf_h3 env cell_resolution gdf' of
        Inl e \<Rightarrow> Inl e
      | Inr ps \<Rightarrow>
     (case gvi_mean env score_field ps of
        Inl e \<Rightarrow> Inl e
      | Inr t \<Rightarrow> gvi_hex env t)))))"

subsection \<open>The specification's words for the aggregate\<close>



subsection \<open>A small library and small files, for running the command\<close>

text \<open>
  One instance of the library calls, simple enough to evaluate. A stored file is a layer of
  features, a written layer of hexagons, or bytes that are no geometry file. Text converts to
  a number when it is a string of decimal digits. A point's cell is the square of side
  \<open>2\<^sup>-\<^sup>r\<close> that holds it, other geometries have no coordinates to read; every cell has the same
  boundary. Writing stores the layer under the path. The comparison with \<^verbatim>\<open>pd.StringDtype\<close> is
  taken to hold for numpy's object dtype and for nothing else; the theorems below evaluate it
  on \<open>StringDtype\<close> and \<open>Float64\<close> only. The mean of a group skips missing values, raises on
  text, and is infinite where the sum of the group is beyond the largest float; otherwise it
  is the exact mean, without rounding, so it is the float mean on groups whose sum and mean
  are floats, such as 2 and 4. The message of its exception is the one pandas 2 gives for a
  column of dtype object; other versions word it differently.
\<close>
datatype stored = Layer frame | HexLayer "hex_feature list" | NoGeometryFile

definition digit_of :: "char \<Rightarrow> nat option" where
  "digit_of c = map_of (zip ''0123456789'' [0, 1, 2, 3, 4, 5, 6, 7, 8, 9]) c"

fun parse_digits :: "nat \<Rightarrow> string \<Rightarrow> nat option" where
  "parse_digits acc [] = Some acc"
| "parse_digits acc (c # cs) =
     (case digit_of c of None \<Rightarrow> None | Some d \<Rightarrow> parse_digits (10 * acc + d) cs)"

fun sample_number :: "val \<Rightarrow> val option" where
  "sample_number NA = Some NA"
| "sample_number (Num x) = Some (Num x)"
| "sample_number PosInf = Some PosInf"
| "sample_number NegInf = Some NegInf"
| "sample_number (Str s) =
     (if s = [] then None
      else case parse_digits 0 s of None \<Rightarrow> None | Some n \<Rightarrow> Some (Num (of_nat n)))"

definition sample_to_numeric :: "series \<Rightarrow> lib_exn + series" where
  "sample_to_numeric s =
     (if list_all (\<lambda>v. sample_number v \<noteq> None) (vals s)
      then Inr \<lparr>dtype = Float64, vals = map (\<lambda>v. the (sample_number v)) (vals s)\<rparr>
      else Inl ''Unable to parse string'')"

definition sample_geo_to_h3 :: "int \<Rightarrow> geometry \<Rightarrow> lib_exn + cell" where
  "sample_geo_to_h3 r g =
     (case g of
        Point x y \<Rightarrow>
          if 0 \<le> r \<and> r \<le> 15
          then Inr (format_02 r @ '':'' @ format_02 \<lfloor>x * 2 ^ nat r\<rfloor> @ '':'' @ format_02 \<lfloor>y * 2 ^ nat r\<rfloor>)
          else Inl ''resolution out of range''
      | _ \<Rightarrow> Inl ''x attribute access only provided for Point geometries'')"

fun is_text :: "val \<Rightarrow> bool" where
  "is_text (Str s) = True"
| "is_text v = False"

fun numbers :: "val list \<Rightarrow> real list" where
  "numbers [] = []"
| "numbers (Num x # vs) = x # numbers vs"
| "numbers (v # vs) = numbers vs"

definition sample_mean :: "val list \<Rightarrow> lib_exn + val" where
  "sample_mean vs =
     (if list_ex is_text vs then Inl ''agg function failed [how->mean,dtype->object]''
      else if PosInf \<in> set vs \<and> NegInf \<in> set vs then Inr NA
      else if PosInf \<in> set vs then Inr PosInf
      else if NegInf \<in> set vs then Inr NegInf
      else if numbers vs = [] then Inr NA
      else if sum_list (numbers vs) \<ge> 2 ^ 1024 - 2 ^ 970 then Inr PosInf
      else if sum_list (numbers vs) \<le> - (2 ^ 1024 - 2 ^ 970) then Inr NegInf
      else Inr (Num (sum_list (numbers vs) / of_nat (length (numbers vs)))))"

definition sample_env :: "stored env" where
  "sample_env =
     \<lparr>parse_file = (\<lambda>f. case f of
          Layer gdf \<Rightarrow> Inr gdf
        | HexLayer hs \<Rightarrow> Inr \<lparr>columns = [''index'', ''score'', ''geometry''], dtypes = (\<lambda>c. Object),
            rows = map (\<lambda>h. \<lparr>geom = Polygon, attrs = (\<lambda>c. NA)(''index'' := Str (h3 h), ''score'' := score h)\<rparr>) hs\<rparr>
        | NoGeometryFile \<Rightarrow> Inl ''not recognized as being in a supported file format''),
      eq_StringDtype = (\<lambda>d. d = Object),
      to_numeric = sample_to_numeric,
      geo_to_h3 = sample_geo_to_h3,
      mean = sample_mean,
      h3_to_geo_boundary = (\<lambda>c. Inr [(0, 0), (1, 0), (1, 1), (0, 1), (0, 0)]),
      to_file = (\<lambda>hs p fs. Inr (HexLayer hs))\<rparr>"


definition pt :: "real \<Rightarrow> real \<Rightarrow> val \<Rightarrow> feature" where
  "pt x y v = \<lparr>geom = Point x y, attrs = (\<lambda>c. NA)(''gvi'' := v)\<rparr>"

text \<open>Two points of one cell with the scores 2 and 4, and a third point without a score.\<close>
definition two_points :: frame where
  "two_points =
     \<lparr>columns = [''gvi'', ''geometry''], dtypes = (\<lambda>c. Object)(''gvi'' := Float64),
      rows = [pt (1 / 4096) (1 / 4096) (Num 2), pt 7 7 NA, pt (1 / 2048) (1 / 2048) (Num 4)]\<rparr>"

text \<open>A point whose score is the text \<^verbatim>\<open>abc\<close>, in a column of the pandas string type.\<close>
definition text_scores :: frame where
  "text_scores =
     \<lparr>columns = [''gvi'', ''geometry''], dtypes = (\<lambda>c. Object)(''gvi'' := StringDtype),
      rows = [pt 0 0 (Str ''abc'')]\<rparr>"

text \<open>Lines only, and no score column.\<close>
definition lines_only :: frame where
  "lines_only =
     \<lparr>columns = [''name'', ''geometry''], dtypes = (\<lambda>c. Object),
      rows = [\<lparr>geom = LineString, attrs = (\<lambda>c. NA)(''name'' := Str ''road'')\<rparr>]\<rparr>"

text \<open>A line and a point.\<close>
definition mixed :: frame where
  "mixed =
     \<lparr>columns = [''gvi'', ''geometry''], dtypes = (\<lambda>c. Object)(''gvi'' := Float64),
      rows = [\<lparr>geom = LineString, attrs = (\<lambda>c. NA)(''gvi'' := Num 1)\<rparr>, pt 0 0 (Num 3)]\<rparr>"

definition disk :: "frame \<Rightarrow> stored fs" where
  "disk gdf = Map.empty(''points.gpkg'' \<mapsto> Layer gdf)"

text \<open>The two scored points of \<open>two_points\<close> with their cell at resolution 10.\<close>
definition two_assigned :: "(cell \<times> feature) list" where
  "two_assigned =
     [(''10:00:00'', (pt (1 / 4096) (1 / 4096) (Num 2))
         \<lparr>attrs := (attrs (pt (1 / 4096) (1 / 4096) (Num 2)))(''h3_10'' := Str ''10:00:00'')\<rparr>),
      (''10:00:00'', (pt (1 / 2048) (1 / 2048) (Num 4))
         \<lparr>attrs := (attrs (pt (1 / 2048) (1 / 2048) (Num 4)))(''h3_10'' := Str ''10:00:00'')\<rparr>)]"



section \<open>Properties\<close>

subsection \<open>The stages, one by one\<close>

lemma digits_small: "n < 10 \<Longrightarrow> digits n = [''0123456789'' ! n]"
  by simp

declare digits.simps [simp del]

lemma format_02_0: "format_02 0 = ''00''"
  by (simp add: format_02_def digits_small)

lemma format_02_10: "format_02 10 = ''10''"
  by (simp add: format_02_def digits.simps[of 10] digits_small)

lemma h3_column_10: "h3_column 10 = ''h3_10''"
  by (simp add: h3_column_def format_02_10)

lemma read_file_stored:
  "fs p = Some content \<Longrightarrow> read_file env fs p = parse_file env content"
  by (simp add: read_file_def)

text \<open>When the file is there and parses, two checks are left.\<close>
lemma validate_input_parsed:
  assumes "fs input_file = Some content" and "parse_file env content = Inr gdf"
  shows "validate_input env fs input_file sf =
     (if ''Point'' \<notin> set (geometry_types gdf) then Inl NoPointGeometry
      else if sf \<notin> set (columns gdf) then Inl MissingScoreField
      else Inr ())"
  using assms by (simp add: validate_input_def path_exists_def read_file_stored)

lemma select_filter: "map fst (filter snd (zip xs (map P xs))) = filter P xs"
  by (induction xs) auto

lemma rows_exclude_no_score:
  "rows (exclude_no_score sf gdf) = filter (\<lambda>r. \<not> isna (attrs r sf)) (rows gdf)"
  by (simp add: exclude_no_score_def select_rows_def get_series_def select_filter comp_def)

lemma set_vals_rows:
  "list_all2 (\<lambda>r' r. geom r' = geom r \<and> (attrs r')(sf := NA) = (attrs r)(sf := NA))
     (set_vals sf rs vs) rs"
  by (induction sf rs vs rule: set_vals.induct) auto

text \<open>
  The guard of line 89 decides alone whether the column is converted: the frame is returned
  as it is when the comparison is false, and is the result of \<^verbatim>\<open>pd.to_numeric\<close> when it is true.
\<close>
lemma convert_score_unequal:
  "\<not> eq_StringDtype env (dtypes gdf sf) \<Longrightarrow> convert_score env sf gdf = Inr gdf"
  by (simp add: convert_score_def get_series_def)

lemma convert_score_equal:
  "eq_StringDtype env (dtypes gdf sf) \<Longrightarrow>
   convert_score env sf gdf =
     (case to_numeric env (get_series gdf sf) of
        Inl e \<Rightarrow> Inl (ScoreCoercionError e)
      | Inr s \<Rightarrow> Inr (set_series gdf sf s))"
  by (simp add: convert_score_def get_series_def)

text \<open>A frame that leaves the conversion has the rows it entered with, but for the score.\<close>
lemma convert_score_rows:
  assumes "convert_score env sf gdf = Inr gdf'"
  shows "list_all2 (\<lambda>r' r. geom r' = geom r \<and> (attrs r')(sf := NA) = (attrs r)(sf := NA))
           (rows gdf') (rows gdf)"
proof (cases "eq_StringDtype env (dtypes gdf sf)")
  case True
  with assms obtain s where "gdf' = set_series gdf sf s"
    by (auto simp: convert_score_equal split: sum.splits)
  then show ?thesis by (simp add: set_series_def set_vals_rows)
next
  case False
  with assms have "gdf' = gdf" by (simp add: convert_score_unequal)
  then show ?thesis by (simp add: list_all2_refl)
qed

lemma assign_cells_rows:
  "assign_cells env n rs = Inr ps \<Longrightarrow>
   list_all2 (\<lambda>p r. geo_to_h3 env n (geom r) = Inr (fst p) \<and>
      snd p = r\<lparr>attrs := (attrs r)(h3_column n := Str (fst p))\<rparr>) ps rs"
  by (induction rs arbitrary: ps) (auto split: sum.splits)

lemma length_gdf_h3: "gdf_h3 env n gdf = Inr ps \<Longrightarrow> length ps = length (rows gdf)"
  by (auto simp: gdf_h3_def split: sum.splits dest!: assign_cells_rows list_all2_lengthD)

lemma group_keys_set: "set (group_keys ps) = fst ` set ps"
  by (simp add: group_keys_def)

lemma group_keys_distinct: "distinct (group_keys ps)"
  by (simp add: group_keys_def)

text \<open>Every row is in the group of exactly one key.\<close>
lemma sum_group_sizes:
  assumes "distinct ks" and "fst ` set ps \<subseteq> set ks"
  shows "sum_list (map (\<lambda>k. length (group_members k ps)) ks) = length ps"
  using assms(2)
proof (induction ps)
  case Nil
  then show ?case by (simp add: group_members_def)
next
  case (Cons p ps)
  then have "fst p \<in> set ks" by simp
  have "sum_list (map (\<lambda>k. length (group_members k (p # ps))) ks)
      = sum_list (map (\<lambda>k. (if fst p = k then 1 else 0) + length (group_members k ps)) ks)"
    by (intro arg_cong[where f=sum_list] map_cong) (auto simp: group_members_def)
  also have "\<dots> = sum_list (map (\<lambda>k. if fst p = k then 1 else 0) ks)
      + sum_list (map (\<lambda>k. length (group_members k ps)) ks)"
    by (simp add: sum_list_addf)
  also have "sum_list (map (\<lambda>k. if fst p = k then 1 else (0::nat)) ks) = 1"
    using \<open>distinct ks\<close> \<open>fst p \<in> set ks\<close>
    by (induction ks) auto
  finally show ?case using Cons by simp
qed






text \<open>Each stage raises its own kind of error.\<close>
lemma load_input_error: "load_input env fs p = Inl e \<Longrightarrow> \<exists>x. e = UnreadableGeometry x"
  by (auto simp: load_input_def split: sum.splits)

lemma convert_score_error: "convert_score env sf gdf = Inl e \<Longrightarrow> \<exists>x. e = ScoreCoercionError x"
  by (auto simp: convert_score_def split: sum.splits if_splits)

lemma gdf_h3_error: "gdf_h3 env n gdf = Inl e \<Longrightarrow> \<exists>x. e = CellAssignError x"
  by (auto simp: gdf_h3_def split: sum.splits)

lemma gvi_mean_error: "gvi_mean env sf ps = Inl e \<Longrightarrow> \<exists>x. e = AggregationError x"
  by (auto simp: gvi_mean_def split: sum.splits)

lemma gvi_hex_error: "gvi_hex env t = Inl e \<Longrightarrow> \<exists>x. e = BoundaryError x"
  by (auto simp: gvi_hex_def split: sum.splits)

subsection \<open>The command as the layer and the writer\<close>


lemma main_hex_layer:
  "main env input_file sf output_file n fs =
     (case hex_layer env fs input_file sf n of
        Inl e \<Rightarrow> (Inl e, fs)
      | Inr hs \<Rightarrow>
          (case to_file env hs output_file fs of
             Inl (e, fs') \<Rightarrow> (Inl (WriteError e), fs')
           | Inr content \<Rightarrow> (Inr (), fs(output_file \<mapsto> content))))"
  by (simp add: main_def hex_layer_def score_normalizer_def split: sum.splits)

lemma hex_layer_validation_error:
  "validate_input env fs input_file sf = Inl e \<Longrightarrow> hex_layer env fs input_file sf n = Inl e"
  by (simp add: hex_layer_def)

lemma hex_layer_after_validation:
  assumes "validate_input env fs input_file sf = Inr u"
  shows "hex_layer env fs input_file sf n \<noteq> Inl InputNotFound"
    and "hex_layer env fs input_file sf n \<noteq> Inl NoPointGeometry"
    and "hex_layer env fs input_file sf n \<noteq> Inl MissingScoreField"
  using assms
  by (auto simp: hex_layer_def score_normalizer_def split: sum.splits
      dest: load_input_error convert_score_error gdf_h3_error gvi_mean_error gvi_hex_error)


text \<open>The three errors of the checks come from the checks and from nowhere else.\<close>
lemma fst_main_validator_error:
  assumes "e \<in> {InputNotFound, NoPointGeometry, MissingScoreField}"
  shows "(fst (main env input_file sf output_file n fs) = Inl e)
       = (validate_input env fs input_file sf = Inl e)"
proof (cases "validate_input env fs input_file sf")
  case (Inl e')
  then show ?thesis by (simp add: main_hex_layer hex_layer_validation_error)
next
  case (Inr u)
  from hex_layer_after_validation[OF Inr, of n] assms
  have "hex_layer env fs input_file sf n \<noteq> Inl e" by auto
  with assms have "fst (main env input_file sf output_file n fs) \<noteq> Inl e"
    by (auto simp: main_hex_layer split: sum.splits prod.splits)
  with Inr show ?thesis by simp
qed





subsection \<open>The small files, stage by stage\<close>

lemma disk_points: "disk gdf ''points.gpkg'' = Some (Layer gdf)"
  by (simp add: disk_def)

lemma parse_layer: "parse_file sample_env (Layer gdf) = Inr gdf"
  by (simp add: sample_env_def)

lemma validate_sample:
  "validate_input sample_env (disk gdf) ''points.gpkg'' sf =
     (if ''Point'' \<notin> set (geometry_types gdf) then Inl NoPointGeometry
      else if sf \<notin> set (columns gdf) then Inl MissingScoreField
      else Inr ())"
  using disk_points parse_layer by (rule validate_input_parsed)

lemma load_sample: "load_input sample_env (disk gdf) ''points.gpkg'' = Inr gdf"
  by (simp add: load_input_def read_file_def disk_points parse_layer)


lemma types_lines_only: "geometry_types lines_only = [''LineString'']"
  by (simp add: geometry_types_def lines_only_def)

lemma types_mixed: "geometry_types mixed = [''LineString'', ''Point'']"
  by (simp add: geometry_types_def mixed_def pt_def)

lemma types_text_scores: "geometry_types text_scores = [''Point'']"
  by (simp add: geometry_types_def text_scores_def pt_def)


lemma columns_text_scores: "columns text_scores = [''gvi'', ''geometry'']"
  by (simp add: text_scores_def)


lemma normalize_two_points:
  "score_normalizer sample_env ''gvi'' two_points = Inr (exclude_no_score ''gvi'' two_points)"
  by (simp add: score_normalizer_def convert_score_def get_series_def exclude_no_score_def
      select_rows_def two_points_def sample_env_def)

lemma rows_kept_two_points:
  "rows (exclude_no_score ''gvi'' two_points) =
     [pt (1 / 4096) (1 / 4096) (Num 2), pt (1 / 2048) (1 / 2048) (Num 4)]"
  by (simp add: rows_exclude_no_score two_points_def pt_def)

lemma assign_two_points:
  "gdf_h3 sample_env 10 (exclude_no_score ''gvi'' two_points) = Inr two_assigned"
  by (simp add: gdf_h3_def rows_kept_two_points sample_env_def sample_geo_to_h3_def pt_def
      two_assigned_def format_02_0 format_02_10 h3_column_10)










lemma normalize_text_scores: "score_normalizer sample_env ''gvi'' text_scores = Inr text_scores"
  by (simp add: score_normalizer_def convert_score_def get_series_def exclude_no_score_def
      select_rows_def text_scores_def sample_env_def pt_def)

lemma assign_text_scores:
  "gdf_h3 sample_env 10 text_scores =
     Inr [(''10:00:00'', (pt 0 0 (Str ''abc''))
            \<lparr>attrs := (attrs (pt 0 0 (Str ''abc'')))(''h3_10'' := Str ''10:00:00'')\<rparr>)]"
  by (simp add: gdf_h3_def text_scores_def sample_env_def sample_geo_to_h3_def pt_def
      format_02_0 format_02_10 h3_column_10)

lemma hex_layer_text_scores:
  "hex_layer sample_env (disk text_scores) ''points.gpkg'' ''gvi'' 10 =
     Inl (AggregationError ''agg function failed [how->mean,dtype->object]'')"
  by (simp add: hex_layer_def validate_sample types_text_scores columns_text_scores load_sample
      normalize_text_scores assign_text_scores)
     (simp add: gvi_mean_def group_keys_def group_members_def pt_def sample_env_def
        sample_mean_def)

lemma to_numeric_text_scores:
  "to_numeric sample_env (get_series text_scores ''gvi'') = Inl ''Unable to parse string''"
  by (simp add: sample_env_def sample_to_numeric_def get_series_def text_scores_def pt_def
      digit_of_def)

section \<open>The claims\<close>

subsection \<open>One mean per cell\<close>




subsection \<open>Records without a score\<close>

text \<open>
  Claim C2. The Score Normalizer removes the records whose score is missing and no others,
  and adds none: the rows that leave it are, in order, the rows of the input whose score is
  not missing, with the same geometry and the same values in every column but the score
  column. So when the cells have been assigned, the sizes of the groups add up to the number
  of input records with a score, and no group has more rows than that.
\<close>
theorem normalizer_drops_exactly_the_unscored:
  assumes "score_normalizer env sf gdf = Inr gdf'" and "gdf_h3 env n gdf' = Inr ps"
  shows "list_all2 (\<lambda>r' r. geom r' = geom r \<and> (attrs r')(sf := NA) = (attrs r)(sf := NA))
           (rows gdf') (filter (\<lambda>r. \<not> isna (attrs r sf)) (rows gdf))
       \<and> length (rows gdf') = length (filter (\<lambda>r. \<not> isna (attrs r sf)) (rows gdf))
       \<and> sum_list (map (\<lambda>k. length (group_members k ps)) (group_keys ps))
           = length (filter (\<lambda>r. \<not> isna (attrs r sf)) (rows gdf))
       \<and> length (group_members k ps) \<le> length (filter (\<lambda>r. \<not> isna (attrs r sf)) (rows gdf))"
proof -
  let ?kept = "filter (\<lambda>r. \<not> isna (attrs r sf)) (rows gdf)"
  from assms(1)
  have rel: "list_all2 (\<lambda>r' r. geom r' = geom r \<and> (attrs r')(sf := NA) = (attrs r)(sf := NA))
      (rows gdf') ?kept"
    unfolding score_normalizer_def by (auto dest: convert_score_rows simp: rows_exclude_no_score)
  then have len: "length (rows gdf') = length ?kept" by (rule list_all2_lengthD)
  from assms(2) have ps: "length ps = length (rows gdf')" by (rule length_gdf_h3)
  have total: "sum_list (map (\<lambda>k. length (group_members k ps)) (group_keys ps)) = length ps"
    by (rule sum_group_sizes) (simp_all add: group_keys_set group_keys_distinct)
  have "length (group_members k ps) \<le> length ps" by (simp add: group_members_def)
  with rel len ps total show ?thesis by simp
qed

theorem normalizer_drops_exactly_the_unscored_witness:
  "score_normalizer sample_env ''gvi'' two_points = Inr (exclude_no_score ''gvi'' two_points)
   \<and> gdf_h3 sample_env 10 (exclude_no_score ''gvi'' two_points) = Inr two_assigned
   \<and> length (rows two_points) = 3
   \<and> length (rows (exclude_no_score ''gvi'' two_points)) = 2
   \<and> length (filter (\<lambda>r. \<not> isna (attrs r ''gvi'')) (rows two_points)) = 2
   \<and> length (group_members ''10:00:00'' two_assigned) = 2"
  using normalizer_drops_exactly_the_unscored
      [OF normalize_two_points assign_two_points, of "''10:00:00''"]
    normalize_two_points assign_two_points
  by (simp add: rows_kept_two_points two_points_def pt_def group_members_def two_assigned_def)

subsection \<open>Text in the score column\<close>

text \<open>
  Claim C3 says that every record that leaves the Score Normalizer has a number as its
  score. The script converts the column only when the guard of line 89 holds, and the guard
  compares the column's dtype with the class \<^verbatim>\<open>pd.StringDtype\<close>. A column of the pandas string
  type has an instance of that class as its dtype, and an instance does not compare equal to
  the class. The file \<open>text_scores\<close> passes the four checks, and its record leaves the
  normalizer with the text \<^verbatim>\<open>abc\<close> as its score.
\<close>
theorem text_score_survives_normalizer:
  "validate_input sample_env (disk text_scores) ''points.gpkg'' ''gvi'' = Inr ()
   \<and> \<not> eq_StringDtype sample_env (dtype (get_series text_scores ''gvi''))
   \<and> score_normalizer sample_env ''gvi'' text_scores = Inr text_scores
   \<and> map (\<lambda>r. attrs r ''gvi'') (rows text_scores) = [Str ''abc'']"
  by (simp add: validate_sample types_text_scores columns_text_scores normalize_text_scores)
     (simp add: text_scores_def pt_def get_series_def sample_env_def)

text \<open>
  Claim C4 says that a score column of a text type is converted, and that the run fails with
  ScoreCoercionError exactly when a value does not parse. On \<open>text_scores\<close> the column has
  the pandas string type and \<^verbatim>\<open>pd.to_numeric\<close> would raise on it, but the guard is false, the
  conversion is not tried and no ScoreCoercionError is raised: the run goes on and fails in
  the aggregation.
\<close>
theorem unparsable_text_not_reported:
  "dtypes text_scores ''gvi'' = StringDtype
   \<and> \<not> eq_StringDtype sample_env StringDtype
   \<and> to_numeric sample_env (get_series text_scores ''gvi'') = Inl ''Unable to parse string''
   \<and> score_normalizer sample_env ''gvi'' text_scores
       \<noteq> Inl (ScoreCoercionError ''Unable to parse string'')
   \<and> fst (main sample_env ''points.gpkg'' ''gvi'' ''hex.gpkg'' 10 (disk text_scores))
       = Inl (AggregationError ''agg function failed [how->mean,dtype->object]'')"
  by (simp add: to_numeric_text_scores normalize_text_scores main_hex_layer hex_layer_text_scores)
     (simp add: text_scores_def sample_env_def)

subsection \<open>The checks\<close>

text \<open>
  Claim C5. For an input file that exists and parses to the frame \<open>gdf\<close>, the checks fail
  with NoPointGeometry exactly when \<^verbatim>\<open>Point\<close> is not among the geometry types of \<open>gdf\<close>; so
  does the whole command, and it then has raised in the checks, before any later stage, and
  has left the file system as it was. A frame with a point and other geometries does not
  fail with NoPointGeometry.
\<close>
theorem no_point_geometry_iff:
  assumes "fs input_file = Some content" and "parse_file env content = Inr gdf"
  shows "(validate_input env fs input_file sf = Inl NoPointGeometry)
           = (''Point'' \<notin> set (geometry_types gdf))
       \<and> (fst (main env input_file sf output_file n fs) = Inl NoPointGeometry)
           = (''Point'' \<notin> set (geometry_types gdf))
       \<and> (main env input_file sf output_file n fs = (Inl NoPointGeometry, fs))
           = (''Point'' \<notin> set (geometry_types gdf))"
proof -
  have v: "(validate_input env fs input_file sf = Inl NoPointGeometry)
      = (''Point'' \<notin> set (geometry_types gdf))"
    using assms by (simp add: validate_input_parsed)
  have m: "(fst (main env input_file sf output_file n fs) = Inl NoPointGeometry)
      = (validate_input env fs input_file sf = Inl NoPointGeometry)"
    by (rule fst_main_validator_error) simp
  have "validate_input env fs input_file sf = Inl NoPointGeometry \<Longrightarrow>
      main env input_file sf output_file n fs = (Inl NoPointGeometry, fs)"
    by (simp add: main_hex_layer hex_layer_validation_error)
  moreover have "main env input_file sf output_file n fs = (Inl NoPointGeometry, fs) \<Longrightarrow>
      fst (main env input_file sf output_file n fs) = Inl NoPointGeometry"
    by simp
  ultimately show ?thesis using v m by blast
qed

theorem no_point_geometry_iff_witness:
  "disk lines_only ''points.gpkg'' = Some (Layer lines_only)
   \<and> parse_file sample_env (Layer lines_only) = Inr lines_only
   \<and> ''Point'' \<notin> set (geometry_types lines_only)
   \<and> main sample_env ''points.gpkg'' ''gvi'' ''hex.gpkg'' 10 (disk lines_only)
       = (Inl NoPointGeometry, disk lines_only)
   \<and> ''Point'' \<in> set (geometry_types mixed)
   \<and> validate_input sample_env (disk mixed) ''points.gpkg'' ''gvi'' \<noteq> Inl NoPointGeometry
   \<and> fst (main sample_env ''points.gpkg'' ''gvi'' ''hex.gpkg'' 10 (disk mixed))
       \<noteq> Inl NoPointGeometry"
  using no_point_geometry_iff [where fs = "disk lines_only" and input_file = "''points.gpkg''"
        and env = sample_env and sf = "''gvi''" and output_file = "''hex.gpkg''" and n = 10,
        OF disk_points parse_layer]
    no_point_geometry_iff [where fs = "disk mixed" and input_file = "''points.gpkg''"
        and env = sample_env and sf = "''gvi''" and output_file = "''hex.gpkg''" and n = 10,
        OF disk_points parse_layer]
  by (simp add: disk_points parse_layer types_lines_only types_mixed)




subsection \<open>The output file\<close>




subsection \<open>The default resolution\<close>

text \<open>
  Claim C9. A call of the command without \<^verbatim>\<open>cell_resolution\<close> is the run of \<^verbatim>\<open>main\<close> with the
  resolution 10.
\<close>
theorem default_resolution:
  "app env input_file sf output_file None fs = main env input_file sf output_file 10 fs"
  by (simp add: app_def)

end
